theory Spec2Isabelle
  imports Main
begin

section \<open>The main window of MoleQueue: request slots and server-error handling\<close>

text \<open>
  The development embeds \<^verbatim>\<open>src/molequeue/mainwindow.cpp\<close>. The slots of
  \<^verbatim>\<open>MainWindow\<close> return nothing; everything they do is a call on a collaborator (the
  connection that sent the signal, the queue manager, the job manager, a queue, the
  server, the application object, a dialog) or a line on the log. A slot is therefore
  modelled as the list of those calls, in the order the source makes them.
\<close>

subsection \<open>Objects the slots receive and hand on\<close>

text \<open>
  Pointers to objects owned elsewhere are identities: a \<^verbatim>\<open>ServerConnection*\<close> and a
  \<^verbatim>\<open>Queue*\<close> are numbers, and a pointer that may be \<^verbatim>\<open>NULL\<close> is an \<open>option\<close>.
  \<^verbatim>\<open>IdType\<close> is only passed on and compared, never computed with.
\<close>

type_synonym ServerConnection = nat
type_synonym Queue = nat
type_synonym IdType = nat

text \<open>
  Of a \<^verbatim>\<open>Job\<close> the source reads \<^verbatim>\<open>req->queue()\<close> and \<^verbatim>\<open>req->hash()\<close> (the latter only to
  print it); \<open>jobMoleQueueId\<close> is the identifier a job was given, the key of
  \<^verbatim>\<open>lookupMoleQueueId\<close>.
\<close>

record Job =
  queue :: string
  hash :: string
  jobMoleQueueId :: IdType

text \<open>
  \<^verbatim>\<open>this->sender()\<close> is a \<^verbatim>\<open>QObject*\<close>: null when the slot is called directly, otherwise
  the object whose signal is being delivered. \<^verbatim>\<open>qobject_cast<ServerConnection*>\<close> gives
  the connection when the object is one and null in every other case.
\<close>

datatype QObject = ServerConnectionObject ServerConnection | OtherObject nat

fun qobject_cast :: "QObject option \<Rightarrow> ServerConnection option" where
  "qobject_cast None = None"
| "qobject_cast (Some (ServerConnectionObject conn)) = Some conn"
| "qobject_cast (Some (OtherObject _)) = None"

text \<open>The error code of a failed submission; the source names one enumerator.\<close>

datatype JobSubmissionErrorCode = InvalidQueue | OtherErrorCode nat

text \<open>\<^verbatim>\<open>QAbstractSocket::SocketError\<close>, the enumeration of Qt 4.\<close>

datatype SocketError =
    ConnectionRefusedError
  | RemoteHostClosedError
  | HostNotFoundError
  | SocketAccessError
  | SocketResourceError
  | SocketTimeoutError
  | DatagramTooLargeError
  | NetworkError
  | AddressInUseError
  | SocketAddressNotAvailableError
  | UnsupportedSocketOperationError
  | UnfinishedSocketOperationError
  | ProxyAuthenticationRequiredError
  | SslHandshakeFailedError
  | ProxyConnectionRefusedError
  | ProxyConnectionClosedError
  | ProxyConnectionTimeoutError
  | ProxyNotFoundError
  | ProxyProtocolError
  | UnknownSocketError

subsection \<open>What the slots consult\<close>

text \<open>
  \<^verbatim>\<open>m_server->queueManager()\<close> and \<^verbatim>\<open>m_server->jobManager()\<close> are classes declared outside
  this file. The slots use three of their member functions, which are parameters here:
  any queue manager and any job manager may be plugged in.
\<close>

record QueueManager =
  lookupQueue :: "string \<Rightarrow> Queue option"
  toQueueList :: "string list"

record JobManager =
  lookupMoleQueueId :: "IdType \<Rightarrow> Job option"

record Server =
  queueManager :: QueueManager
  jobManager :: JobManager

subsection \<open>Calls made by the slots\<close>

text \<open>
  One item streamed into \<^verbatim>\<open>qWarning()\<close> or \<^verbatim>\<open>qDebug()\<close>. The text of \<^verbatim>\<open>Q_FUNC_INFO\<close>
  depends on the compiler; \<open>FuncInfo\<close> carries the name of the member function.
\<close>

datatype LogItem =
    Text string
  | FuncInfo string
  | HashValue string
  | IdValue IdType
  | BoolValue bool

datatype Call =
    QWarning "LogItem list"
  | QDebug "LogItem list"
  | ToQueueList
  | LookupQueue string
  | LookupMoleQueueId IdType
  | SendQueueList ServerConnection "string list"
  | SendFailedSubmissionResponse ServerConnection Job JobSubmissionErrorCode string
  | SendSuccessfulSubmissionResponse ServerConnection Job
  | SendSuccessfulCancellationResponse ServerConnection "Job option"
  | SubmitJob Queue Job
  | GetItem string string "string list" int bool
  | Hide
  | AppExit int
  | ForceStart
  | MessageBoxWarning string string

subsection \<open>Strings of Qt\<close>

text \<open>
  No translation catalogue is installed by the source, so \<^verbatim>\<open>tr\<close> gives its argument
  back. \<^verbatim>\<open>QString::arg\<close> replaces the place marker of lowest number by its argument; the
  two templates of the source have the single marker \<^verbatim>\<open>%1\<close>, and \<open>arg\<close> replaces each
  occurrence of these two characters.
\<close>

definition tr :: "string \<Rightarrow> string" where
  "tr s = s"

fun arg :: "string \<Rightarrow> string \<Rightarrow> string" where
  "arg [] a = []"
| "arg [c] a = [c]"
| "arg (c # d # cs) a =
     (if c = CHR ''%'' \<and> d = CHR ''1'' then a @ arg cs a else c # arg (d # cs) a)"

text \<open>\<^verbatim>\<open>QList::indexOf\<close>: the position of the first occurrence, or \<open>-1\<close>.\<close>

fun indexOf :: "'a list \<Rightarrow> 'a \<Rightarrow> int" where
  "indexOf [] x = - 1"
| "indexOf (y # ys) x =
     (if y = x then 0 else (let r = indexOf ys x in if r = - 1 then - 1 else r + 1))"

text \<open>\<^verbatim>\<open>QList::value(i)\<close>: the element at \<open>i\<close>, or a default-constructed one out of range.\<close>

definition value_at :: "string list \<Rightarrow> nat \<Rightarrow> string" where
  "value_at xs i = (if i < length xs then xs ! i else [])"

text \<open>
  \<^verbatim>\<open>QInputDialog::getItem\<close> with \<^verbatim>\<open>editable = false\<close> shows a combo box over the items.
  The user either accepts with one row selected or rejects (Cancel, Escape, closing the
  window). Accepted, the text of the selected row is returned and \<^verbatim>\<open>*ok\<close> is true;
  rejected, the text of the initial row is returned and \<^verbatim>\<open>*ok\<close> is false.
\<close>

datatype UserAction = Accepted nat | Rejected

fun getItem :: "string list \<Rightarrow> nat \<Rightarrow> UserAction \<Rightarrow> string \<times> bool" where
  "getItem items current (Accepted row) = (value_at items row, True)"
| "getItem items current Rejected = (value_at items current, False)"

text \<open>A row the combo box can show.\<close>

fun selectable :: "string list \<Rightarrow> UserAction \<Rightarrow> bool" where
  "selectable items (Accepted row) = (row < length items)"
| "selectable items Rejected = True"

subsection \<open>\<^verbatim>\<open>MainWindow::handleServerError\<close>\<close>

definition choices :: "string list" where
  "choices =
     [tr ''There is no other server running. Continue running.'',
      tr ''Oops -- there is an existing server. Terminate the new server.'']"

definition handleServerError :: "SocketError \<Rightarrow> string \<Rightarrow> UserAction \<Rightarrow> Call list" where
  "handleServerError err str user =
     (if err = AddressInUseError then
        (let (choice, ok) = getItem choices 0 user;
             index = indexOf choices choice
         in GetItem (tr ''Replace existing MoleQueue server?'')
                    (tr (''A MoleQueue server appears to already be '' @
                         ''running. How would you like to handle this?''))
                    choices 0 False #
            (if \<not> ok \<or> index = 1 then [Hide, AppExit 0] else [ForceStart]))
      else
        [MessageBoxWarning (tr ''Server error'')
           (arg (tr (''A server error has occurred: '' @ [CHR 0x27] @ ''%1'' @ [CHR 0x27])) str)])"

subsection \<open>The request slots\<close>

definition not_a_connection :: string where
  "not_a_connection = ''called with a sender which is not a '' @ ''ServerConnection.''"

definition queueListRequested :: "Server \<Rightarrow> QObject option \<Rightarrow> Call list" where
  "queueListRequested m_server sender =
     (case qobject_cast sender of
        None \<Rightarrow> [QWarning [FuncInfo ''queueListRequested'', Text not_a_connection]]
      | Some conn \<Rightarrow>
          [ToQueueList, SendQueueList conn (toQueueList (queueManager m_server))])"

text \<open>
  \<^verbatim>\<open>Queue::submitJob\<close> belongs to the queue subsystem; its boolean result is the
  parameter \<open>submitJob\<close>.
\<close>

definition jobSubmissionRequested ::
  "Server \<Rightarrow> (Queue \<Rightarrow> Job \<Rightarrow> bool) \<Rightarrow> QObject option \<Rightarrow> Job \<Rightarrow> Call list" where
  "jobSubmissionRequested m_server submitJob sender req =
     (case qobject_cast sender of
        None \<Rightarrow> [QWarning [FuncInfo ''jobSubmissionRequested'', Text not_a_connection]]
      | Some conn \<Rightarrow>
          [QDebug [Text (''Job submission requested:'' @ [CHR 0x0A]), HashValue (hash req)],
           LookupQueue (queue req)] @
          (case lookupQueue (queueManager m_server) (queue req) of
             None \<Rightarrow>
               [SendFailedSubmissionResponse conn req InvalidQueue
                  (arg (tr ''Unknown queue: %1'') (queue req))]
           | Some q \<Rightarrow>
               [SendSuccessfulSubmissionResponse conn req,
                SubmitJob q req,
                QDebug [Text ''Submission ok?'', BoolValue (submitJob q req)]]))"

definition jobCancellationRequested :: "Server \<Rightarrow> QObject option \<Rightarrow> IdType \<Rightarrow> Call list" where
  "jobCancellationRequested m_server sender moleQueueId =
     (case qobject_cast sender of
        None \<Rightarrow> [QWarning [FuncInfo ''jobCancellationRequested'', Text not_a_connection]]
      | Some conn \<Rightarrow>
          (let req = lookupMoleQueueId (jobManager m_server) moleQueueId
           in [QDebug [Text ''Job cancellation requested: MoleQueueId:'', IdValue moleQueueId],
               LookupMoleQueueId moleQueueId,
               SendSuccessfulCancellationResponse conn req]))"

subsection \<open>\<^verbatim>\<open>MainWindow::newConnection\<close>\<close>

text \<open>
  \<^verbatim>\<open>newConnection(conn)\<close> connects the three request signals of \<open>conn\<close> to the three
  slots. \<open>slot_for\<close> is that table: the slot a signal runs, with the object that
  \<^verbatim>\<open>sender()\<close> gives inside it. Once \<open>conn\<close> is connected, a signal it emits runs its slot
  with \<open>conn\<close> as the sender.
\<close>

datatype Signal =
    QueueListRequestedSignal
  | JobSubmissionRequestedSignal Job
  | JobCancellationRequestedSignal IdType

fun slot_for ::
  "Server \<Rightarrow> (Queue \<Rightarrow> Job \<Rightarrow> bool) \<Rightarrow> QObject option \<Rightarrow> Signal \<Rightarrow> Call list" where
  "slot_for m_server submitJob sender QueueListRequestedSignal =
     queueListRequested m_server sender"
| "slot_for m_server submitJob sender (JobSubmissionRequestedSignal req) =
     jobSubmissionRequested m_server submitJob sender req"
| "slot_for m_server submitJob sender (JobCancellationRequestedSignal moleQueueId) =
     jobCancellationRequested m_server sender moleQueueId"

definition newConnection ::
  "Server \<Rightarrow> (Queue \<Rightarrow> Job \<Rightarrow> bool) \<Rightarrow> ServerConnection \<Rightarrow> Signal \<Rightarrow> Call list" where
  "newConnection m_server submitJob conn signal =
     slot_for m_server submitJob (Some (ServerConnectionObject conn)) signal"

subsection \<open>Reading a list of calls\<close>

text \<open>The connection a response is sent on; \<open>None\<close> for a call that is no response.\<close>

fun response_on :: "Call \<Rightarrow> ServerConnection option" where
  "response_on (SendQueueList conn _) = Some conn"
| "response_on (SendFailedSubmissionResponse conn _ _ _) = Some conn"
| "response_on (SendSuccessfulSubmissionResponse conn _) = Some conn"
| "response_on (SendSuccessfulCancellationResponse conn _) = Some conn"
| "response_on _ = None"

definition is_response :: "Call \<Rightarrow> bool" where
  "is_response call = (response_on call \<noteq> None)"

definition responses :: "Call list \<Rightarrow> Call list" where
  "responses calls = filter is_response calls"

fun is_submit :: "Call \<Rightarrow> bool" where
  "is_submit (SubmitJob _ _) = True"
| "is_submit _ = False"

fun is_log :: "Call \<Rightarrow> bool" where
  "is_log (QWarning _) = True"
| "is_log (QDebug _) = True"
| "is_log _ = False"

text \<open>A query that reads the queue manager or the job manager and changes nothing.\<close>

fun is_read :: "Call \<Rightarrow> bool" where
  "is_read ToQueueList = True"
| "is_read (LookupQueue _) = True"
| "is_read (LookupMoleQueueId _) = True"
| "is_read _ = False"

text \<open>A call on the queue manager, on a queue or on the job manager.\<close>

definition is_directory_call :: "Call \<Rightarrow> bool" where
  "is_directory_call call = (is_read call \<or> is_submit call)"

text \<open>What a slot does to the world around it: every call that is neither a log line nor a read.\<close>

definition effects :: "Call list \<Rightarrow> Call list" where
  "effects calls = filter (\<lambda>call. \<not> is_log call \<and> \<not> is_read call) calls"

text \<open>The dialog that \<open>handleServerError\<close> opens when the address is in use.\<close>

definition conflict_dialog :: Call where
  "conflict_dialog =
     GetItem (tr ''Replace existing MoleQueue server?'')
       (tr (''A MoleQueue server appears to already be '' @
            ''running. How would you like to handle this?''))
       choices 0 False"

subsection \<open>The queue directory\<close>

text \<open>
  Modelled from the spec: \<^verbatim>\<open>QueueManager::lookupQueue\<close> and \<^verbatim>\<open>QueueManager::toQueueList\<close>
  (\<^verbatim>\<open>queuemanager.h\<close> and its implementation are not part of the source at hand). The
  directory holds queues, each identified by a unique name; \<open>lookup\<close> resolves a name to
  its queue or to nothing, and \<open>allNames\<close> gives the names in sequence.
\<close>

definition queueDirectory :: "(string \<times> Queue) list \<Rightarrow> QueueManager" where
  "queueDirectory queues = \<lparr>lookupQueue = map_of queues, toQueueList = map fst queues\<rparr>"

subsection \<open>A small installation\<close>

definition water_job :: Job where
  "water_job = \<lparr>queue = ''local'', hash = ''molecule=water'', jobMoleQueueId = 1\<rparr>"

definition stray_job :: Job where
  "stray_job = \<lparr>queue = ''Q'', hash = ''molecule=ethane'', jobMoleQueueId = 2\<rparr>"

definition two_queues :: "(string \<times> Queue) list" where
  "two_queues = [(''local'', 10), (''remote'', 11)]"

definition small_server :: Server where
  "small_server =
     \<lparr>queueManager = queueDirectory two_queues,
      jobManager = \<lparr>lookupMoleQueueId = map_of [(1, water_job)]\<rparr>\<rparr>"

definition always_accepts :: "Queue \<Rightarrow> Job \<Rightarrow> bool" where
  "always_accepts q req = True"

section \<open>Properties\<close>

subsection \<open>Strings built from templates\<close>

lemma arg_unknown_queue: "arg (tr ''Unknown queue: %1'') name = ''Unknown queue: '' @ name"
  by (simp add: tr_def)

subsection \<open>Job submission\<close>

text \<open>
  C2. A submission arrives from a connection and names a queue that the queue manager
  knows. Then the successful-submission response for the job is sent on that connection
  strictly before \<^verbatim>\<open>submitJob\<close> is called on the queue: the response is among the calls
  made before the first call of \<^verbatim>\<open>submitJob\<close>, that call is the only one and it is made on
  the queue that was looked up, and the response is the only one sent.
\<close>

theorem accepted_response_before_submit:
  assumes "qobject_cast sender = Some conn"
    and "lookupQueue (queueManager m_server) (queue req) = Some q"
  shows "SendSuccessfulSubmissionResponse conn req
           \<in> set (takeWhile (\<lambda>call. \<not> is_submit call)
                    (jobSubmissionRequested m_server submitJob sender req))
         \<and> filter is_submit (jobSubmissionRequested m_server submitJob sender req)
             = [SubmitJob q req]
         \<and> responses (jobSubmissionRequested m_server submitJob sender req)
             = [SendSuccessfulSubmissionResponse conn req]"
  using assms by (simp add: jobSubmissionRequested_def responses_def is_response_def)

theorem accepted_response_before_submit_witness:
  "qobject_cast (Some (ServerConnectionObject 3)) = Some 3
   \<and> lookupQueue (queueManager small_server) (queue water_job) = Some 10
   \<and> SendSuccessfulSubmissionResponse 3 water_job
         \<in> set (takeWhile (\<lambda>call. \<not> is_submit call)
                  (jobSubmissionRequested small_server always_accepts
                     (Some (ServerConnectionObject 3)) water_job))
   \<and> filter is_submit (jobSubmissionRequested small_server always_accepts
                          (Some (ServerConnectionObject 3)) water_job)
        = [SubmitJob 10 water_job]"
proof -
  have cast: "qobject_cast (Some (ServerConnectionObject 3)) = Some 3"
    by simp
  have found: "lookupQueue (queueManager small_server) (queue water_job) = Some 10"
    by (simp add: small_server_def queueDirectory_def two_queues_def water_job_def)
  from accepted_response_before_submit [OF cast found, of always_accepts] cast found
  show ?thesis by simp
qed

text \<open>
  C3. A submission arrives from a connection and names a queue that the queue manager does
  not know. Then the slot prints the job on the debug log, looks the queue up, sends the
  failed-submission response with the code \<open>InvalidQueue\<close> and the message
  \<^verbatim>\<open>Unknown queue: \<close> followed by the name of the queue on that connection, and returns.
  \<^verbatim>\<open>submitJob\<close> is not called, and apart from the log line and the lookup the response is
  all that happens.
\<close>

theorem unknown_queue_rejected:
  assumes "qobject_cast sender = Some conn"
    and "lookupQueue (queueManager m_server) (queue req) = None"
  shows "jobSubmissionRequested m_server submitJob sender req =
           [QDebug [Text (''Job submission requested:'' @ [CHR 0x0A]), HashValue (hash req)],
            LookupQueue (queue req),
            SendFailedSubmissionResponse conn req InvalidQueue (''Unknown queue: '' @ queue req)]
         \<and> filter is_submit (jobSubmissionRequested m_server submitJob sender req) = []
         \<and> effects (jobSubmissionRequested m_server submitJob sender req) =
             [SendFailedSubmissionResponse conn req InvalidQueue (''Unknown queue: '' @ queue req)]"
  using assms by (simp add: jobSubmissionRequested_def effects_def arg_unknown_queue)

theorem unknown_queue_rejected_witness:
  "qobject_cast (Some (ServerConnectionObject 3)) = Some 3
   \<and> lookupQueue (queueManager small_server) (queue stray_job) = None
   \<and> jobSubmissionRequested small_server always_accepts (Some (ServerConnectionObject 3)) stray_job =
       [QDebug [Text (''Job submission requested:'' @ [CHR 0x0A]), HashValue ''molecule=ethane''],
        LookupQueue ''Q'',
        SendFailedSubmissionResponse 3 stray_job InvalidQueue ''Unknown queue: Q'']"
proof -
  have cast: "qobject_cast (Some (ServerConnectionObject 3)) = Some 3"
    by simp
  have absent: "lookupQueue (queueManager small_server) (queue stray_job) = None"
    by (simp add: small_server_def queueDirectory_def two_queues_def stray_job_def)
  from unknown_queue_rejected [OF cast absent, of always_accepts] cast absent
  show ?thesis by (simp add: stray_job_def)
qed

subsection \<open>Job cancellation\<close>

lemma jobCancellationRequested_calls:
  "qobject_cast sender = Some conn \<Longrightarrow>
   jobCancellationRequested m_server sender moleQueueId =
     [QDebug [Text ''Job cancellation requested: MoleQueueId:'', IdValue moleQueueId],
      LookupMoleQueueId moleQueueId,
      SendSuccessfulCancellationResponse conn (lookupMoleQueueId (jobManager m_server) moleQueueId)]"
  by (simp add: jobCancellationRequested_def)

text \<open>
  C1. Cancelling an identifier that the job manager does not know: the lookup gives a null
  job, and the slot passes that null job to \<^verbatim>\<open>sendSuccessfulCancellationResponse\<close>. The
  connection is asked to build the response of a successful cancellation from no job; no
  rejection is sent.
\<close>

theorem cancellation_of_unknown_id:
  "jobCancellationRequested small_server (Some (ServerConnectionObject 3)) 7 =
     [QDebug [Text ''Job cancellation requested: MoleQueueId:'', IdValue 7],
      LookupMoleQueueId 7,
      SendSuccessfulCancellationResponse 3 None]"
  by (simp add: jobCancellationRequested_def small_server_def)

subsection \<open>Responses and the connection they are sent on\<close>

lemma response_on_queueList:
  "qobject_cast sender = Some conn \<Longrightarrow>
   map response_on (responses (queueListRequested m_server sender)) = [Some conn]"
  by (simp add: queueListRequested_def responses_def is_response_def)

lemma response_on_submission:
  "qobject_cast sender = Some conn \<Longrightarrow>
   map response_on (responses (jobSubmissionRequested m_server submitJob sender req)) = [Some conn]"
  by (simp add: jobSubmissionRequested_def responses_def is_response_def split: option.split)

lemma response_on_cancellation:
  "qobject_cast sender = Some conn \<Longrightarrow>
   map response_on (responses (jobCancellationRequested m_server sender moleQueueId)) = [Some conn]"
  by (simp add: jobCancellationRequested_def responses_def is_response_def)

lemma response_on_slot:
  "qobject_cast sender = Some conn \<Longrightarrow>
   map response_on (responses (slot_for m_server submitJob sender signal)) = [Some conn]"
  by (cases signal)
     (simp_all add: response_on_queueList response_on_submission response_on_cancellation)

lemma response_on_in_responses:
  "response_on call = Some c \<Longrightarrow> call \<in> set calls \<Longrightarrow>
   Some c \<in> set (map response_on (responses calls))"
  by (force simp: responses_def is_response_def)

text \<open>
  C4. A request signal is delivered with a connection as its sender. Then every response
  the slot sends is sent on that connection: no call of the slot sends anything on another
  connection, whatever the server holds and whichever other connections exist.
\<close>

theorem responses_only_on_sender:
  assumes "qobject_cast sender = Some conn"
  shows "\<forall>call \<in> set (slot_for m_server submitJob sender signal).
           \<forall>other. response_on call = Some other \<longrightarrow> other = conn"
proof (intro ballI allI impI)
  fix call other
  assume "call \<in> set (slot_for m_server submitJob sender signal)"
    and "response_on call = Some other"
  then have "Some other \<in> set (map response_on (responses (slot_for m_server submitJob sender signal)))"
    by (simp only: response_on_in_responses)
  with assms show "other = conn"
    by (simp add: response_on_slot)
qed

theorem responses_only_on_sender_witness:
  "qobject_cast (Some (ServerConnectionObject 3)) = Some 3
   \<and> SendSuccessfulSubmissionResponse 3 water_job
       \<in> set (newConnection small_server always_accepts 3 (JobSubmissionRequestedSignal water_job))
   \<and> SendSuccessfulSubmissionResponse 4 water_job
       \<notin> set (newConnection small_server always_accepts 3 (JobSubmissionRequestedSignal water_job))"
proof -
  have cast: "qobject_cast (Some (ServerConnectionObject 3)) = Some 3"
    by simp
  have sent: "SendSuccessfulSubmissionResponse 3 water_job
       \<in> set (newConnection small_server always_accepts 3 (JobSubmissionRequestedSignal water_job))"
    by (simp add: newConnection_def jobSubmissionRequested_def small_server_def
        queueDirectory_def two_queues_def water_job_def)
  have elsewhere: "response_on (SendSuccessfulSubmissionResponse 4 water_job) = Some 4"
    by simp
  have "SendSuccessfulSubmissionResponse 4 water_job
       \<notin> set (newConnection small_server always_accepts 3 (JobSubmissionRequestedSignal water_job))"
  proof
    assume "SendSuccessfulSubmissionResponse 4 water_job
       \<in> set (newConnection small_server always_accepts 3 (JobSubmissionRequestedSignal water_job))"
    with responses_only_on_sender [OF cast, of small_server always_accepts
        "JobSubmissionRequestedSignal water_job"] elsewhere
    have "(4::nat) = 3"
      unfolding newConnection_def by blast
    then show False by simp
  qed
  with cast sent show ?thesis by (simp only: simp_thms)
qed

text \<open>
  C5. A request signal is delivered with a connection as its sender. Then the slot sends
  exactly one response, and sends it on that connection, whatever the queue manager and
  the job manager hold and whatever \<^verbatim>\<open>submitJob\<close> returns.
\<close>

theorem exactly_one_response:
  assumes "qobject_cast sender = Some conn"
  shows "length (responses (slot_for m_server submitJob sender signal)) = 1
         \<and> map response_on (responses (slot_for m_server submitJob sender signal)) = [Some conn]"
proof -
  have one: "map response_on (responses (slot_for m_server submitJob sender signal)) = [Some conn]"
    using assms by (rule response_on_slot)
  from arg_cong [OF one, of length]
  have "length (responses (slot_for m_server submitJob sender signal)) = 1"
    by simp
  with one show ?thesis by (simp only: simp_thms)
qed

theorem exactly_one_response_witness:
  "qobject_cast (Some (ServerConnectionObject 3)) = Some 3
   \<and> length (responses (newConnection small_server (\<lambda>q req. False) 3
                (JobSubmissionRequestedSignal water_job))) = 1
   \<and> responses (newConnection small_server (\<lambda>q req. False) 3
                (JobSubmissionRequestedSignal water_job))
       = [SendSuccessfulSubmissionResponse 3 water_job]"
proof -
  have cast: "qobject_cast (Some (ServerConnectionObject 3)) = Some 3"
    by simp
  have sent: "responses (newConnection small_server (\<lambda>q req. False) 3
                (JobSubmissionRequestedSignal water_job))
       = [SendSuccessfulSubmissionResponse 3 water_job]"
    by (simp add: newConnection_def jobSubmissionRequested_def small_server_def
        queueDirectory_def two_queues_def water_job_def responses_def is_response_def)
  from exactly_one_response [OF cast, of small_server "\<lambda>q req. False"
      "JobSubmissionRequestedSignal water_job"] cast sent
  show ?thesis by (simp only: newConnection_def simp_thms)
qed

text \<open>
  C9. A slot runs with a sender that is no connection (no sender at all, or an object of
  another class). Then the slot writes one warning and returns: it sends no response and
  makes no call on the queue manager, on a queue or on the job manager.
\<close>

theorem null_sender_only_warns:
  assumes "qobject_cast sender = None"
  shows "(\<exists>items. slot_for m_server submitJob sender signal = [QWarning items])
         \<and> responses (slot_for m_server submitJob sender signal) = []
         \<and> filter is_directory_call (slot_for m_server submitJob sender signal) = []"
  using assms
  by (cases signal)
     (simp_all add: queueListRequested_def jobSubmissionRequested_def
        jobCancellationRequested_def responses_def is_response_def is_directory_call_def)

theorem null_sender_only_warns_witness:
  "qobject_cast (Some (OtherObject 4)) = None
   \<and> slot_for small_server always_accepts (Some (OtherObject 4)) (JobCancellationRequestedSignal 1)
       = [QWarning [FuncInfo ''jobCancellationRequested'',
                    Text ''called with a sender which is not a ServerConnection.'']]
   \<and> responses (slot_for small_server always_accepts (Some (OtherObject 4))
                  (JobCancellationRequestedSignal 1)) = []
   \<and> filter is_directory_call (slot_for small_server always_accepts (Some (OtherObject 4))
                  (JobCancellationRequestedSignal 1)) = []"
proof -
  have cast: "qobject_cast (Some (OtherObject 4)) = None"
    by simp
  have warn: "slot_for small_server always_accepts (Some (OtherObject 4)) (JobCancellationRequestedSignal 1)
       = [QWarning [FuncInfo ''jobCancellationRequested'',
                    Text ''called with a sender which is not a ServerConnection.'']]"
    by (simp add: jobCancellationRequested_def not_a_connection_def)
  from null_sender_only_warns [OF cast, of small_server always_accepts
      "JobCancellationRequestedSignal 1"] cast warn
  show ?thesis by (simp only: simp_thms)
qed

subsection \<open>Listing the queues\<close>

text \<open>
  C8. A queue-list request arrives from a connection, and the queue manager is a directory
  of queues with unique names. Then the slot asks the queue manager for its list and sends
  exactly that list on the connection: the names sent are the names the lookup resolves,
  none of them twice, and for an empty directory the list sent is empty. The slot has no
  other path.
\<close>

theorem queue_list_is_the_directory:
  assumes "qobject_cast sender = Some conn"
    and "queueManager m_server = queueDirectory queues"
    and "distinct (map fst queues)"
  shows "queueListRequested m_server sender = [ToQueueList, SendQueueList conn (map fst queues)]
         \<and> set (map fst queues) = dom (lookupQueue (queueManager m_server))
         \<and> distinct (map fst queues)
         \<and> (queues = [] \<longrightarrow>
               queueListRequested m_server sender = [ToQueueList, SendQueueList conn []])"
proof -
  have sent: "queueListRequested m_server sender = [ToQueueList, SendQueueList conn (map fst queues)]"
    using assms(1,2) by (simp add: queueListRequested_def queueDirectory_def)
  have names: "set (map fst queues) = dom (lookupQueue (queueManager m_server))"
    using assms(2) by (simp add: queueDirectory_def dom_map_of_conv_image_fst)
  have empty: "queues = [] \<longrightarrow>
      queueListRequested m_server sender = [ToQueueList, SendQueueList conn []]"
    using sent by simp
  from sent names assms(3) empty show ?thesis
    by (simp only: simp_thms)
qed

theorem queue_list_is_the_directory_witness:
  "qobject_cast (Some (ServerConnectionObject 3)) = Some 3
   \<and> queueManager small_server = queueDirectory two_queues
   \<and> distinct (map fst two_queues)
   \<and> queueListRequested small_server (Some (ServerConnectionObject 3)) =
       [ToQueueList, SendQueueList 3 [''local'', ''remote'']]
   \<and> dom (lookupQueue (queueManager small_server)) = {''local'', ''remote''}"
proof -
  have cast: "qobject_cast (Some (ServerConnectionObject 3)) = Some 3"
    by simp
  have dir: "queueManager small_server = queueDirectory two_queues"
    by (simp add: small_server_def)
  have uniq: "distinct (map fst two_queues)"
    by (simp add: two_queues_def)
  from queue_list_is_the_directory [OF cast dir uniq] cast dir uniq
  show ?thesis by (simp add: two_queues_def)
qed

subsection \<open>Server errors\<close>

lemma handleServerError_in_use:
  "handleServerError AddressInUseError str user =
     conflict_dialog #
     (if user = Accepted 1 \<or> user = Rejected then [Hide, AppExit 0] else [ForceStart])"
proof (cases user)
  case (Accepted row)
  consider "row = 0" | "row = 1" | "2 \<le> row" by linarith
  then show ?thesis
  proof cases
    case 1
    with Accepted show ?thesis
      by (simp add: handleServerError_def conflict_dialog_def choices_def tr_def value_at_def)
  next
    case 2
    with Accepted show ?thesis
      by (simp add: handleServerError_def conflict_dialog_def choices_def tr_def value_at_def)
  next
    case 3
    with Accepted show ?thesis
      by (simp add: handleServerError_def conflict_dialog_def choices_def tr_def value_at_def)
  qed
next
  case Rejected
  then show ?thesis
    by (simp add: handleServerError_def conflict_dialog_def choices_def tr_def value_at_def)
qed

text \<open>
  C6. The server reports that the address is in use. Then the handler opens the dialog and
  takes exactly one of two courses: it hides the window and asks the application to exit
  with code 0, without any forced start; or it calls \<^verbatim>\<open>forceStart\<close> on the server, without
  hiding or exiting. There is no third course.
\<close>

theorem address_in_use_two_outcomes:
  "(handleServerError AddressInUseError str user = [conflict_dialog, Hide, AppExit 0]
    \<or> handleServerError AddressInUseError str user = [conflict_dialog, ForceStart])
   \<and> (ForceStart \<in> set (handleServerError AddressInUseError str user))
       \<noteq> (AppExit 0 \<in> set (handleServerError AddressInUseError str user))"
  by (simp add: handleServerError_in_use conflict_dialog_def)

theorem address_in_use_two_outcomes_witness:
  "handleServerError AddressInUseError ''Address in use'' (Accepted 0) = [conflict_dialog, ForceStart]
   \<and> handleServerError AddressInUseError ''Address in use'' (Accepted 1)
       = [conflict_dialog, Hide, AppExit 0]"
proof -
  have no_exit: "AppExit 0 \<notin> set (handleServerError AddressInUseError ''Address in use'' (Accepted 0))"
    by (simp add: handleServerError_def choices_def tr_def value_at_def)
  have no_start: "ForceStart \<notin> set (handleServerError AddressInUseError ''Address in use'' (Accepted 1))"
    by (simp add: handleServerError_def choices_def tr_def value_at_def)
  from address_in_use_two_outcomes [of "''Address in use''" "Accepted 0"]
    address_in_use_two_outcomes [of "''Address in use''" "Accepted 1"] no_exit no_start
  show ?thesis by auto
qed

text \<open>
  C7. The server reports any error other than address-in-use. Then the handler shows one
  warning box with the text of the error and does nothing else: no dialog, no hiding, no
  exit, no forced start.
\<close>

theorem other_errors_only_notify:
  assumes "err \<noteq> AddressInUseError"
  shows "handleServerError err str user =
           [MessageBoxWarning ''Server error''
              (''A server error has occurred: '' @ [CHR 0x27] @ str @ [CHR 0x27])]"
  using assms by (simp add: handleServerError_def tr_def)

theorem other_errors_only_notify_witness:
  "NetworkError \<noteq> AddressInUseError
   \<and> handleServerError NetworkError ''Network unreachable'' Rejected =
       [MessageBoxWarning ''Server error''
          (''A server error has occurred: '' @ [CHR 0x27] @ ''Network unreachable'' @ [CHR 0x27])]"
proof -
  have other: "NetworkError \<noteq> AddressInUseError" by simp
  from other_errors_only_notify [OF other, of "''Network unreachable''" Rejected] other
  show ?thesis by (simp only: simp_thms)
qed

text \<open>
  C10. The user answers the dialog, choosing among the rows it shows or dismissing it.
  Dismissing the dialog hides the window and asks the application to exit; \<^verbatim>\<open>forceStart\<close>
  is called exactly when the dialog is accepted with the first row selected.
\<close>

theorem dismissed_dialog_terminates:
  assumes "selectable choices user"
  shows "(user = Rejected \<longrightarrow>
            handleServerError AddressInUseError str user = [conflict_dialog, Hide, AppExit 0])
         \<and> (ForceStart \<in> set (handleServerError AddressInUseError str user)
              \<longleftrightarrow> user = Accepted 0)"
proof (cases user)
  case (Accepted row)
  with assms have "row = 0 \<or> row = 1"
    by (auto simp: choices_def)
  with Accepted show ?thesis
    by (auto simp: handleServerError_in_use conflict_dialog_def)
next
  case Rejected
  then show ?thesis
    by (simp add: handleServerError_in_use conflict_dialog_def)
qed

theorem dismissed_dialog_terminates_witness:
  "selectable choices Rejected
   \<and> handleServerError AddressInUseError ''Address in use'' Rejected
       = [conflict_dialog, Hide, AppExit 0]
   \<and> ForceStart \<notin> set (handleServerError AddressInUseError ''Address in use'' Rejected)
   \<and> selectable choices (Accepted 0)
   \<and> ForceStart \<in> set (handleServerError AddressInUseError ''Address in use'' (Accepted 0))"
proof -
  have r: "selectable choices Rejected" by simp
  have a: "selectable choices (Accepted 0)" by (simp add: choices_def)
  from dismissed_dialog_terminates [OF r, of "''Address in use''"]
    dismissed_dialog_terminates [OF a, of "''Address in use''"] r a
  show ?thesis by (simp add: conflict_dialog_def)
qed

end
